theory Spec2Isabelle
  imports Complex_Main "HOL-Library.Sublist" "HOL-Library.Multiset" "HOL-Library.Log_Nat"
begin

section \<open>Data model (lib/supabase.ts, supabase/migrations)\<close>

text \<open>
  Row types follow the TypeScript \<open>Database\<close> type: a column typed \<open>T | null\<close> is a
  \<open>T option\<close>. Identifiers and timestamps are strings, as they are on the client.
  A \<open>string\<close> is a JavaScript string whose code units are below 256, one \<open>char\<close> per
  code unit (U+0000 to U+00FF). A JavaScript number is a rational, its exact value
  (section "JavaScript numbers"); \<open>lead_score\<close> and \<open>pincode\<close> are integers
  (\<open>parseInt\<close>).
  Field names are shared between the records, so they are always written qualified
  (\<open>lead.full_name\<close>, \<open>formData.full_name\<close>), as the source writes \<open>lead.full_name\<close>.
\<close>

type_synonym uuid = string
type_synonym timestamp = string

datatype lead_type = Individual | Business | Housing_Society | Agent
datatype model_type = Purchase | Rent | Individual_Home_kit
datatype lead_status = New | In_Progress | Closed

text \<open>\<open>Product\<close> and \<open>Service\<close> have the same row type.\<close>

record item =
  id :: uuid
  name :: string
  description :: "string option"
  price :: rat
  is_active :: bool
  created_at :: timestamp
  updated_at :: timestamp

type_synonym product = item
type_synonym service = item

record lead =
  id :: uuid
  user_id :: uuid
  full_name :: string
  email :: string
  phone :: "string option"
  company :: "string option"
  lead_type :: lead_type
  model_type :: model_type
  lead_score :: int
  status :: lead_status
  potential_amount :: rat
  "notes" :: "string option"
  address :: string
  location_url :: "string option"
  pincode :: "int option"
  follow_up :: "bool option"
  follow_up_date :: "string option"
  follow_up_notes :: "string option"
  lead_sealed :: "bool option"
  created_at :: timestamp
  updated_at :: timestamp

text \<open>The form state of \<open>LeadForm\<close> (\<open>useState\<close> at LeadForm.tsx:21).\<close>

record formData =
  full_name :: string
  email :: string
  phone :: string
  company :: string
  lead_type :: lead_type
  model_type :: model_type
  lead_score :: int
  status :: lead_status
  potential_amount :: rat
  "notes" :: string
  address :: string
  location_url :: string
  pincode :: int
  follow_up :: bool
  follow_up_date :: string
  follow_up_notes :: string
  lead_sealed :: bool

definition initialFormData :: formData where
  "initialFormData =
     \<lparr> formData.full_name = '''', formData.email = '''', formData.phone = '''',
       formData.company = '''', formData.lead_type = Individual,
       formData.model_type = Purchase, formData.lead_score = 0, formData.status = New,
       formData.potential_amount = 0, formData.notes = '''', formData.address = '''',
       formData.location_url = '''', formData.pincode = 0, formData.follow_up = False,
       formData.follow_up_date = '''', formData.follow_up_notes = '''',
       formData.lead_sealed = False \<rparr>"

section \<open>JavaScript numbers\<close>

text \<open>
  A finite JavaScript number is modelled by its exact value, a rational (one that is a
  double, where it stands for a number the client holds). Addition is the
  IEEE 754 binary64 addition: the exact sum rounded to the nearest double, ties to the
  even significand, with the fixed spacing of the subnormal range below \<open>2^-1022\<close>. A
  result of magnitude \<open>2^1024\<close> or more is not a finite number (\<open>Infinity\<close>, and from
  there on \<open>Infinity\<close> or \<open>NaN\<close>): \<open>None\<close>.
\<close>

definition round_half_even :: "rat \<Rightarrow> int" where
  "round_half_even r =
     (let f = \<lfloor>r\<rfloor>; d = r - of_int f
      in if d < 1 / 2 then f else if 1 / 2 < d then f + 1 else if even f then f else f + 1)"

text \<open>
  The exponent \<open>e\<close> with \<open>2^e \<le> |x| < 2^(e+1)\<close> for \<open>x \<noteq> 0\<close>: the difference of the bit
  lengths of numerator and denominator, or one less.
\<close>

definition binary_exponent :: "rat \<Rightarrow> int" where
  "binary_exponent x =
     (let (a, b) = quotient_of \<bar>x\<bar>;
          k = bitlen a - bitlen b
      in if 2 powi k \<le> \<bar>x\<bar> then k else k - 1)"

definition round_to_double :: "rat \<Rightarrow> rat" where
  "round_to_double x =
     (if x = 0 then 0
      else let e = max (binary_exponent x) (- 1022);
               ulp = 2 powi (e - 52)
           in ulp * of_int (round_half_even (x / ulp)))"

definition js_add :: "rat \<Rightarrow> rat \<Rightarrow> rat option" where
  "js_add x y =
     (let r = round_to_double (x + y) in if binary_exponent r < 1024 then Some r else None)"

section \<open>Amount calculator (LeadForm.tsx:42-61, 505-519)\<close>

text \<open>
  \<open>x?.price || 0\<close>: \<open>None\<close> is the \<open>undefined\<close> of a failed \<open>find\<close>; a finite number is
  falsy exactly when it is zero. The two \<open>reduce\<close> calls add with \<open>js_add\<close>, from 0 and
  from left to right; \<open>None\<close> is a total that is no finite number.
\<close>

definition or_zero :: "rat option \<Rightarrow> rat" where
  "or_zero v = (case v of None \<Rightarrow> 0 | Some x \<Rightarrow> if x = 0 then 0 else x)"

definition calculatedAmount ::
  "product list \<Rightarrow> service list \<Rightarrow> uuid list \<Rightarrow> uuid list \<Rightarrow> rat option" where
  "calculatedAmount products services selectedProducts selectedServices =
     (let productTotal =
            foldl (\<lambda>sum productId.
                     case sum of
                       None \<Rightarrow> None
                     | Some s \<Rightarrow>
                         js_add s (or_zero (map_option item.price
                                     (find (\<lambda>p. item.id p = productId) products))))
                  (Some 0) selectedProducts;
          serviceTotal =
            foldl (\<lambda>sum serviceId.
                     case sum of
                       None \<Rightarrow> None
                     | Some s \<Rightarrow>
                         js_add s (or_zero (map_option item.price
                                     (find (\<lambda>s. item.id s = serviceId) services))))
                  (Some 0) selectedServices
      in case productTotal of
           None \<Rightarrow> None
         | Some p \<Rightarrow> (case serviceTotal of None \<Rightarrow> None | Some s \<Rightarrow> js_add p s))"

text \<open>
  The effect that copies the calculated amount into the form (LeadForm.tsx:57-61);
  \<open>lead\<close> is the optional prop: \<open>None\<close> when a new lead is being created.
\<close>

definition autoUpdateAmount :: "lead option \<Rightarrow> rat \<Rightarrow> formData \<Rightarrow> formData" where
  "autoUpdateAmount lead calculated prev =
     (if lead = None \<and> calculated > 0
      then prev\<lparr> formData.potential_amount := calculated \<rparr>
      else prev)"

text \<open>The \<open>readOnly\<close> attribute of the potential-amount input (LeadForm.tsx:518).\<close>

definition amountReadOnly :: "lead option \<Rightarrow> rat \<Rightarrow> bool" where
  "amountReadOnly lead calculated = (lead = None \<and> calculated > 0)"

text \<open>
  The input's \<open>onChange\<close> (LeadForm.tsx:515), \<open>v\<close> being \<open>parseFloat(e.target.value) || 0\<close>.
  A read-only input raises no change event, so the handler runs only when the field is
  editable.
\<close>

definition amountChange :: "lead option \<Rightarrow> rat \<Rightarrow> rat \<Rightarrow> formData \<Rightarrow> formData" where
  "amountChange lead calculated v prev =
     (if amountReadOnly lead calculated then prev
      else prev\<lparr> formData.potential_amount := v \<rparr>)"

text \<open>
  The specification's wording of the calculator: the price an id resolves to in the
  catalog snapshot, and 0 for an id that resolves to nothing; the total is the sum over
  the selected products plus the sum over the selected services, in exact arithmetic.
\<close>

definition price_of :: "item list \<Rightarrow> uuid \<Rightarrow> rat" where
  "price_of snapshot i =
     (case map_of (map (\<lambda>p. (item.id p, item.price p)) snapshot) i of
        None \<Rightarrow> 0
      | Some pr \<Rightarrow> pr)"

definition spec_total :: "item list \<Rightarrow> item list \<Rightarrow> uuid list \<Rightarrow> uuid list \<Rightarrow> rat" where
  "spec_total products services selectedProducts selectedServices =
     sum_list (map (price_of products) selectedProducts)
     + sum_list (map (price_of services) selectedServices)"

section \<open>Selection toggles (LeadForm.tsx:197-211)\<close>

definition handleProductToggle :: "uuid \<Rightarrow> uuid list \<Rightarrow> uuid list" where
  "handleProductToggle productId prev =
     (if productId \<in> set prev
      then filter (\<lambda>i. i \<noteq> productId) prev
      else prev @ [productId])"

definition handleServiceToggle :: "uuid \<Rightarrow> uuid list \<Rightarrow> uuid list" where
  "handleServiceToggle serviceId prev =
     (if serviceId \<in> set prev
      then filter (\<lambda>i. i \<noteq> serviceId) prev
      else prev @ [serviceId])"

section \<open>Follow-up gate and form loading (LeadForm.tsx:63-88, 538-586)\<close>

text \<open>The checkbox's \<open>onChange\<close>; \<open>checked\<close> is \<open>e.target.checked\<close>.\<close>

definition followUpChange :: "bool \<Rightarrow> formData \<Rightarrow> formData" where
  "followUpChange checked prev =
     prev\<lparr> formData.follow_up := checked,
           formData.follow_up_date := (if checked then formData.follow_up_date prev else ''''),
           formData.follow_up_notes := (if checked then formData.follow_up_notes prev else '''') \<rparr>"

text \<open>
  The date and notes inputs exist only while \<open>formData.follow_up\<close> holds
  (LeadForm.tsx:558), so their \<open>onChange\<close> can run only then.
\<close>

definition followUpDateChange :: "string \<Rightarrow> formData \<Rightarrow> formData" where
  "followUpDateChange v prev =
     (if formData.follow_up prev then prev\<lparr> formData.follow_up_date := v \<rparr> else prev)"

definition followUpNotesChange :: "string \<Rightarrow> formData \<Rightarrow> formData" where
  "followUpNotesChange v prev =
     (if formData.follow_up prev then prev\<lparr> formData.follow_up_notes := v \<rparr> else prev)"

text \<open>\<open>x || ''\<close>, \<open>x || 0\<close> and \<open>x || false\<close> on a nullable column.\<close>

definition or_empty :: "string option \<Rightarrow> string" where
  "or_empty v = (case v of None \<Rightarrow> '''' | Some s \<Rightarrow> s)"

definition or_zero_int :: "int option \<Rightarrow> int" where
  "or_zero_int v = (case v of None \<Rightarrow> 0 | Some n \<Rightarrow> n)"

definition or_false :: "bool option \<Rightarrow> bool" where
  "or_false v = (case v of None \<Rightarrow> False | Some b \<Rightarrow> b)"

text \<open>The effect that fills the form from the lead being edited (LeadForm.tsx:67-87).\<close>

definition loadLead :: "lead \<Rightarrow> formData" where
  "loadLead lead =
     \<lparr> formData.full_name = lead.full_name lead,
       formData.email = lead.email lead,
       formData.phone = or_empty (lead.phone lead),
       formData.company = or_empty (lead.company lead),
       formData.lead_type = lead.lead_type lead,
       formData.model_type = lead.model_type lead,
       formData.lead_score = lead.lead_score lead,
       formData.status = lead.status lead,
       formData.potential_amount = lead.potential_amount lead,
       formData.notes = or_empty (lead.notes lead),
       formData.address = or_empty (Some (lead.address lead)),
       formData.location_url = or_empty (lead.location_url lead),
       formData.pincode = or_zero_int (lead.pincode lead),
       formData.follow_up = or_false (lead.follow_up lead),
       formData.follow_up_date = or_empty (lead.follow_up_date lead),
       formData.follow_up_notes = or_empty (lead.follow_up_notes lead),
       formData.lead_sealed = or_false (lead.lead_sealed lead) \<rparr>"

text \<open>The follow-up gate as a property of a form state.\<close>

definition coupled :: "formData \<Rightarrow> bool" where
  "coupled fd =
     (formData.follow_up fd \<or>
      (formData.follow_up_date fd = '''' \<and> formData.follow_up_notes fd = ''''))"

section \<open>Storage backend (supabase/migrations, supabase-js calls)\<close>

text \<open>
  The tables the handlers write, with the constraints the migrations declare: the primary
  key of \<open>leads\<close>, the \<open>CHECK\<close> on \<open>lead_score\<close>, the \<open>UNIQUE(lead_id, product_id)\<close> and
  \<open>UNIQUE(lead_id, service_id)\<close> keys, the foreign keys of the junction tables to
  \<open>leads\<close> with \<open>ON DELETE CASCADE\<close>, and the \<open>BEFORE UPDATE\<close> trigger that stamps
  \<open>updated_at\<close>. The row-level policies on \<open>leads\<close> are \<open>auth.uid() = user_id\<close>; the
  handlers filter by \<open>.eq('user_id', user.id)\<close> with the same session user, so the filter
  written in the handler is the one modelled. A statement converts the values it is sent
  to the column types and checks the constraints on the rows it writes, so an update
  that finds no row raises neither.
\<close>

record lead_product =
  lead_id :: uuid
  product_id :: uuid
  quantity :: int

record lead_service =
  lead_id :: uuid
  service_id :: uuid
  quantity :: int

record database =
  leads_table :: "lead list"
  lead_products_table :: "lead_product list"
  lead_services_table :: "lead_service list"

datatype request =
  LeadsSelect | LeadsInsert | LeadsUpdate | LeadsDelete | LeadProductsInsert | LeadServicesInsert

text \<open>
  What the backend contributes to a call: the clock, the generated key, the requests it
  answers with an error for a reason outside the tables above (connectivity, a catalog
  row that is gone), and the non-empty strings its \<open>date\<close> type reads.
\<close>

record backend =
  now :: timestamp
  new_id :: uuid
  fails :: "request \<Rightarrow> bool"
  date_in :: "string \<Rightarrow> bool"

text \<open>
  \<open>NumericOutOfRange\<close> is SQLSTATE 22003, \<open>InvalidDate\<close> is 22007, \<open>CheckViolation\<close> is
  23514, \<open>NoSingleRow\<close> is the PGRST116 of \<open>.single()\<close>.
\<close>

datatype error =
    BackendError request
  | CheckViolation
  | UniqueViolation
  | ForeignKeyViolation
  | NoSingleRow
  | NumericOutOfRange
  | InvalidDate

record user =
  id :: uuid
  email :: string

definition lead_score_check :: "lead \<Rightarrow> bool" where
  "lead_score_check r = (lead.lead_score r \<ge> 0 \<and> lead.lead_score r \<le> 100)"

text \<open>
  The column types of \<open>leads\<close> that can refuse or change a value the form sends.
  \<open>lead_score integer\<close> holds 32 bits. \<open>potential_amount decimal(10,2)\<close> rounds the
  decimal text of the number to two places, half away from zero, and holds fewer than
  eight integer digits; the text is the shortest decimal that reads back as the number,
  so a number that is the double nearest to a two-place tie \<open>t\<close> is sent as \<open>t\<close> and
  rounds away from zero. \<open>follow_up_date date\<close> refuses the empty string; which other
  strings it reads is the backend's \<open>date_in\<close>.
\<close>

definition int4_ok :: "int \<Rightarrow> bool" where
  "int4_ok n = (- 2147483648 \<le> n \<and> n \<le> 2147483647)"

definition numeric_10_2 :: "rat \<Rightarrow> rat" where
  "numeric_10_2 v =
     (let m = \<bar>v\<bar>;
          n = \<lfloor>m * 100\<rfloor>;
          tie = (2 * of_int n + 1) / 200;
          up = (tie \<le> m \<or> round_to_double tie = m)
      in sgn v * of_int (if up then n + 1 else n) / 100)"

definition numeric_10_2_ok :: "rat \<Rightarrow> bool" where
  "numeric_10_2_ok v = (\<bar>v\<bar> < 100000000)"

definition date_ok :: "backend \<Rightarrow> string \<Rightarrow> bool" where
  "date_ok be s = (s \<noteq> '''' \<and> backend.date_in be s)"

text \<open>
  The first refusal met when a row is written, in the order of the columns; then the
  \<open>CHECK\<close> constraint.
\<close>

definition column_error :: "backend \<Rightarrow> lead \<Rightarrow> error option" where
  "column_error be r =
     (if \<not> int4_ok (lead.lead_score r) then Some NumericOutOfRange
      else if \<not> numeric_10_2_ok (lead.potential_amount r) then Some NumericOutOfRange
      else if (case lead.follow_up_date r of None \<Rightarrow> False | Some s \<Rightarrow> \<not> date_ok be s)
      then Some InvalidDate
      else if \<not> lead_score_check r then Some CheckViolation
      else None)"

definition first_error :: "backend \<Rightarrow> lead list \<Rightarrow> error option" where
  "first_error be rows =
     (case List.map_filter (column_error be) rows of [] \<Rightarrow> None | e # es \<Rightarrow> Some e)"

text \<open>\<open>.single()\<close>: the response must hold exactly one row.\<close>

definition single :: "error + 'a list \<Rightarrow> error + 'a" where
  "single res =
     (case res of
        Inl e \<Rightarrow> Inl e
      | Inr rows \<Rightarrow> (case rows of [r] \<Rightarrow> Inr r | _ \<Rightarrow> Inl NoSingleRow))"

text \<open>\<open>from('leads').insert([row]).select()\<close>.\<close>

definition leads_insert :: "backend \<Rightarrow> lead \<Rightarrow> database \<Rightarrow> database \<times> (error + lead list)" where
  "leads_insert be row db =
     (if backend.fails be LeadsInsert then (db, Inl (BackendError LeadsInsert))
      else case column_error be row of
             Some e \<Rightarrow> (db, Inl e)
           | None \<Rightarrow>
               if lead.id row \<in> lead.id ` set (database.leads_table db)
               then (db, Inl UniqueViolation)
               else (db\<lparr> database.leads_table := database.leads_table db @ [row] \<rparr>,
                     Inr [row]))"

text \<open>
  \<open>from('leads').update(payload).eq('id', i).eq('user_id', u).select()\<close>; the trigger sets
  \<open>updated_at\<close> on every row written.
\<close>

definition leads_update ::
  "backend \<Rightarrow> (lead \<Rightarrow> lead) \<Rightarrow> uuid \<Rightarrow> uuid \<Rightarrow> database \<Rightarrow> database \<times> (error + lead list)" where
  "leads_update be payload i u db =
     (if backend.fails be LeadsUpdate then (db, Inl (BackendError LeadsUpdate))
      else
        let hit = (\<lambda>l. lead.id l = i \<and> lead.user_id l = u);
            stamp = (\<lambda>l. (payload l)\<lparr> lead.updated_at := backend.now be \<rparr>);
            rows = map stamp (filter hit (database.leads_table db))
        in case first_error be rows of
             Some e \<Rightarrow> (db, Inl e)
           | None \<Rightarrow>
               (db\<lparr> database.leads_table :=
                      map (\<lambda>l. if hit l then stamp l else l) (database.leads_table db) \<rparr>,
                Inr rows))"

text \<open>
  \<open>from('leads').delete().eq('id', i).eq('user_id', u)\<close>; the junction rows of a deleted
  lead go with it.
\<close>

definition leads_delete :: "backend \<Rightarrow> uuid \<Rightarrow> uuid \<Rightarrow> database \<Rightarrow> database \<times> (error + unit)" where
  "leads_delete be i u db =
     (if backend.fails be LeadsDelete then (db, Inl (BackendError LeadsDelete))
      else
        let hit = (\<lambda>l. lead.id l = i \<and> lead.user_id l = u);
            gone = lead.id ` set (filter hit (database.leads_table db))
        in (\<lparr> database.leads_table = filter (\<lambda>l. \<not> hit l) (database.leads_table db),
              database.lead_products_table =
                filter (\<lambda>r. lead_product.lead_id r \<notin> gone) (database.lead_products_table db),
              database.lead_services_table =
                filter (\<lambda>r. lead_service.lead_id r \<notin> gone) (database.lead_services_table db) \<rparr>,
            Inr ()))"

text \<open>\<open>from('lead_products').insert(rows)\<close>: one statement, all rows or none.\<close>

definition lead_products_insert ::
  "backend \<Rightarrow> lead_product list \<Rightarrow> database \<Rightarrow> database \<times> (error + unit)" where
  "lead_products_insert be rows db =
     (if backend.fails be LeadProductsInsert then (db, Inl (BackendError LeadProductsInsert))
      else if \<exists>r \<in> set rows. lead_product.lead_id r \<notin> lead.id ` set (database.leads_table db)
      then (db, Inl ForeignKeyViolation)
      else if \<not> distinct (map (\<lambda>r. (lead_product.lead_id r, lead_product.product_id r))
                             (database.lead_products_table db @ rows))
      then (db, Inl UniqueViolation)
      else (db\<lparr> database.lead_products_table := database.lead_products_table db @ rows \<rparr>, Inr ()))"

definition lead_services_insert ::
  "backend \<Rightarrow> lead_service list \<Rightarrow> database \<Rightarrow> database \<times> (error + unit)" where
  "lead_services_insert be rows db =
     (if backend.fails be LeadServicesInsert then (db, Inl (BackendError LeadServicesInsert))
      else if \<exists>r \<in> set rows. lead_service.lead_id r \<notin> lead.id ` set (database.leads_table db)
      then (db, Inl ForeignKeyViolation)
      else if \<not> distinct (map (\<lambda>r. (lead_service.lead_id r, lead_service.service_id r))
                             (database.lead_services_table db @ rows))
      then (db, Inl UniqueViolation)
      else (db\<lparr> database.lead_services_table := database.lead_services_table db @ rows \<rparr>, Inr ()))"


section \<open>Handlers (LeadForm.tsx:120-195, LeadsList:17-49)\<close>

text \<open>
  What a handler lets its caller see: it returned at its guard, it invoked its success
  callback (\<open>onLeadCreated\<close>, \<open>onLeadUpdated\<close>, \<open>onLeadDeleted\<close>), or it caught an error
  and logged it without invoking the callback.
\<close>

datatype outcome = Returned | Completed | Logged error

text \<open>
  \<open>{...formData, updated_at}\<close> written over a row; \<open>potential_amount\<close> as its column
  stores it.
\<close>

definition update_payload :: "formData \<Rightarrow> lead \<Rightarrow> lead" where
  "update_payload fd l =
     l\<lparr> lead.full_name := formData.full_name fd,
        lead.email := formData.email fd,
        lead.phone := Some (formData.phone fd),
        lead.company := Some (formData.company fd),
        lead.lead_type := formData.lead_type fd,
        lead.model_type := formData.model_type fd,
        lead.lead_score := formData.lead_score fd,
        lead.status := formData.status fd,
        lead.potential_amount := numeric_10_2 (formData.potential_amount fd),
        lead.notes := Some (formData.notes fd),
        lead.address := formData.address fd,
        lead.location_url := Some (formData.location_url fd),
        lead.pincode := Some (formData.pincode fd),
        lead.follow_up := Some (formData.follow_up fd),
        lead.follow_up_date := Some (formData.follow_up_date fd),
        lead.follow_up_notes := Some (formData.follow_up_notes fd),
        lead.lead_sealed := Some (formData.lead_sealed fd) \<rparr>"

text \<open>
  \<open>{...formData, user_id: user.id}\<close> with the column defaults of the table;
  \<open>potential_amount\<close> as its column stores it.
\<close>

definition insert_row :: "backend \<Rightarrow> formData \<Rightarrow> uuid \<Rightarrow> lead" where
  "insert_row be fd u =
     \<lparr> lead.id = backend.new_id be,
       lead.user_id = u,
       lead.full_name = formData.full_name fd,
       lead.email = formData.email fd,
       lead.phone = Some (formData.phone fd),
       lead.company = Some (formData.company fd),
       lead.lead_type = formData.lead_type fd,
       lead.model_type = formData.model_type fd,
       lead.lead_score = formData.lead_score fd,
       lead.status = formData.status fd,
       lead.potential_amount = numeric_10_2 (formData.potential_amount fd),
       lead.notes = Some (formData.notes fd),
       lead.address = formData.address fd,
       lead.location_url = Some (formData.location_url fd),
       lead.pincode = Some (formData.pincode fd),
       lead.follow_up = Some (formData.follow_up fd),
       lead.follow_up_date = Some (formData.follow_up_date fd),
       lead.follow_up_notes = Some (formData.follow_up_notes fd),
       lead.lead_sealed = Some (formData.lead_sealed fd),
       lead.created_at = backend.now be,
       lead.updated_at = backend.now be \<rparr>"

text \<open>The association inserts of a new lead (LeadForm.tsx:159-187).\<close>

definition insert_associations ::
  "backend \<Rightarrow> lead \<Rightarrow> uuid list \<Rightarrow> uuid list \<Rightarrow> database \<Rightarrow> database \<times> outcome" where
  "insert_associations be leadData selectedProducts selectedServices db =
     (let (db1, productRes) =
            (if length selectedProducts > 0
             then lead_products_insert be
                    (map (\<lambda>productId. \<lparr> lead_product.lead_id = lead.id leadData,
                                         lead_product.product_id = productId,
                                         lead_product.quantity = 1 \<rparr>) selectedProducts) db
             else (db, Inr ()))
      in case productRes of
           Inl productError \<Rightarrow> (db1, Logged productError)
         | Inr _ \<Rightarrow>
             (let (db2, serviceRes) =
                    (if length selectedServices > 0
                     then lead_services_insert be
                            (map (\<lambda>serviceId. \<lparr> lead_service.lead_id = lead.id leadData,
                                                 lead_service.service_id = serviceId,
                                                 lead_service.quantity = 1 \<rparr>) selectedServices) db1
                     else (db1, Inr ()))
              in case serviceRes of
                   Inl serviceError \<Rightarrow> (db2, Logged serviceError)
                 | Inr _ \<Rightarrow> (db2, Completed)))"

definition handleSubmit ::
  "backend \<Rightarrow> user option \<Rightarrow> lead option \<Rightarrow> formData \<Rightarrow> uuid list \<Rightarrow> uuid list \<Rightarrow>
   database \<Rightarrow> database \<times> outcome" where
  "handleSubmit be user lead fd selectedProducts selectedServices db =
     (case user of
        None \<Rightarrow> (db, Returned)
      | Some u \<Rightarrow>
          (case lead of
             Some l \<Rightarrow>
               (let (db1, res) = leads_update be (update_payload fd) (lead.id l) (user.id u) db
                in case single res of
                     Inl e \<Rightarrow> (db1, Logged e)
                   | Inr leadData \<Rightarrow> (db1, Completed))
           | None \<Rightarrow>
               (let (db1, res) = leads_insert be (insert_row be fd (user.id u)) db
                in case single res of
                     Inl e \<Rightarrow> (db1, Logged e)
                   | Inr leadData \<Rightarrow>
                       insert_associations be leadData selectedProducts selectedServices db1)))"

text \<open>\<open>confirmed\<close> is the answer to the \<open>confirm\<close> dialog.\<close>

definition handleDelete ::
  "backend \<Rightarrow> user option \<Rightarrow> bool \<Rightarrow> uuid \<Rightarrow> database \<Rightarrow> database \<times> outcome" where
  "handleDelete be user confirmed i db =
     (case user of
        None \<Rightarrow> (db, Returned)
      | Some u \<Rightarrow>
          if \<not> confirmed then (db, Returned)
          else (let (db1, res) = leads_delete be i (user.id u) db
                in case res of
                     Inl e \<Rightarrow> (db1, Logged e)
                   | Inr _ \<Rightarrow> (db1, Completed)))"

definition handleStatusChange ::
  "backend \<Rightarrow> user option \<Rightarrow> uuid \<Rightarrow> lead_status \<Rightarrow> database \<Rightarrow> database \<times> outcome" where
  "handleStatusChange be user i newStatus db =
     (case user of
        None \<Rightarrow> (db, Returned)
      | Some u \<Rightarrow>
          (let (db1, res) =
                 leads_update be (\<lambda>l. l\<lparr> lead.status := newStatus \<rparr>) i (user.id u) db
           in case res of
                Inl e \<Rightarrow> (db1, Logged e)
              | Inr _ \<Rightarrow> (db1, Completed)))"

section \<open>Form submission (LeadForm.tsx:236, 246-402, 511-519, 625-631)\<close>

text \<open>
  The form is submitted by its submit button. The browser first validates the controls
  against their attributes; while a control is invalid it reports that control to the
  user and fires no submit event, so \<open>handleSubmit\<close> does not run and no request is
  made. The attributes in the source: \<open>required\<close> on address, full name and email;
  \<open>type="email"\<close> and \<open>type="url"\<close>; \<open>type="number" min="0" max="100"\<close> on the lead
  score; \<open>type="number" min="0"\<close> on the potential amount, which is exempt while it is
  read-only. A number control without a \<open>step\<close> attribute accepts whole steps from its
  minimum. What the browser takes for an e-mail address and for a URL are its
  \<open>email_ok\<close> and \<open>url_ok\<close>.
\<close>

record browser =
  email_ok :: "string \<Rightarrow> bool"
  url_ok :: "string \<Rightarrow> bool"

definition form_valid :: "browser \<Rightarrow> lead option \<Rightarrow> rat \<Rightarrow> formData \<Rightarrow> bool" where
  "form_valid br lead calculated fd =
     (formData.address fd \<noteq> '''' \<and>
      (formData.location_url fd = '''' \<or> browser.url_ok br (formData.location_url fd)) \<and>
      formData.full_name fd \<noteq> '''' \<and>
      formData.email fd \<noteq> '''' \<and> browser.email_ok br (formData.email fd) \<and>
      0 \<le> formData.lead_score fd \<and> formData.lead_score fd \<le> 100 \<and>
      (amountReadOnly lead calculated \<or>
       (0 \<le> formData.potential_amount fd \<and>
        of_int \<lfloor>formData.potential_amount fd\<rfloor> = formData.potential_amount fd)))"

text \<open>
  What pressing the submit button comes to: \<open>Invalid\<close> when the browser holds the form
  back, else the outcome of \<open>handleSubmit\<close>.
\<close>

datatype submission = Invalid | Submitted outcome

definition submitForm ::
  "browser \<Rightarrow> backend \<Rightarrow> user option \<Rightarrow> lead option \<Rightarrow> rat \<Rightarrow> formData \<Rightarrow> uuid list \<Rightarrow>
   uuid list \<Rightarrow> database \<Rightarrow> database \<times> submission" where
  "submitForm br be user lead calculated fd selectedProducts selectedServices db =
     (if \<not> form_valid br lead calculated fd then (db, Invalid)
      else (let (db1, out) = handleSubmit be user lead fd selectedProducts selectedServices db
            in (db1, Submitted out)))"

section \<open>Dashboard list (Dashboard:29-80)\<close>


text \<open>
  \<open>toLowerCase\<close> on code units below 256: the letters A to Z and the letters U+00C0 to
  U+00DE (without the sign U+00D7) have a lower-case form, 32 code units up; every other
  code unit is its own.
\<close>

definition toLowerChar :: "char \<Rightarrow> char" where
  "toLowerChar c =
     (let n = (of_char c :: nat)
      in if (65 \<le> n \<and> n \<le> 90) \<or> (192 \<le> n \<and> n \<le> 222 \<and> n \<noteq> 215)
         then char_of (n + 32) else c)"

definition toLowerCase :: "string \<Rightarrow> string" where
  "toLowerCase s = map toLowerChar s"

text \<open>\<open>s.includes(t)\<close> on strings: \<open>t\<close> starts at some position of \<open>s\<close>.\<close>

fun str_includes :: "string \<Rightarrow> string \<Rightarrow> bool" where
  "str_includes [] t = (t = [])"
| "str_includes (c # s) t = (prefix t (c # s) \<or> str_includes s t)"

text \<open>
  The filters are the values of the three selects: \<open>None\<close> is the option \<open>""\<close>
  ("All ..."), which is falsy.
\<close>

definition filteredLeads ::
  "lead list \<Rightarrow> string \<Rightarrow> lead_status option \<Rightarrow> lead_type option \<Rightarrow> model_type option \<Rightarrow>
   lead list" where
  "filteredLeads leads searchTerm filterStatus filterLeadType filterModelType =
     filter (\<lambda>lead.
       let matchesSearch =
             (str_includes (toLowerCase (lead.full_name lead)) (toLowerCase searchTerm) \<or>
              str_includes (toLowerCase (lead.email lead)) (toLowerCase searchTerm) \<or>
              (case lead.company lead of
                 None \<Rightarrow> False
               | Some c \<Rightarrow> c \<noteq> '''' \<and> str_includes (toLowerCase c) (toLowerCase searchTerm)));
           matchesStatus = (filterStatus = None \<or> Some (lead.status lead) = filterStatus);
           matchesLeadType = (filterLeadType = None \<or> Some (lead.lead_type lead) = filterLeadType);
           matchesModelType =
             (filterModelType = None \<or> Some (lead.model_type lead) = filterModelType)
       in matchesSearch \<and> matchesStatus \<and> matchesLeadType \<and> matchesModelType) leads"







section \<open>Example data\<close>

text \<open>
  Two users, a lead of the second one with its follow-up gate off and a date left in the
  row, two catalog products of the sample data (2500.00 and 1200.00), and a backend
  that answers every request.
\<close>

text \<open>
  A \<open>date_in\<close> for the examples: the spelling \<open>yyyy-mm-dd\<close> of a calendar date, which is
  what a date control and a date column produce.
\<close>

definition is_digit :: "char \<Rightarrow> bool" where
  "is_digit c = (let n = (of_char c :: int) in 48 \<le> n \<and> n \<le> 57)"

definition number_of_digits :: "string \<Rightarrow> int" where
  "number_of_digits s = foldl (\<lambda>a c. 10 * a + (of_char c - 48)) 0 s"

definition days_in_month :: "int \<Rightarrow> int \<Rightarrow> int" where
  "days_in_month y m =
     (if m = 2 then (if y mod 4 = 0 \<and> (y mod 100 \<noteq> 0 \<or> y mod 400 = 0) then 29 else 28)
      else if m = 4 \<or> m = 6 \<or> m = 9 \<or> m = 11 then 30 else 31)"

definition iso_date :: "string \<Rightarrow> bool" where
  "iso_date s =
     (case s of
        [y1, y2, y3, y4, h1, m1, m2, h2, d1, d2] \<Rightarrow>
          h1 = CHR ''-'' \<and> h2 = CHR ''-'' \<and> list_all is_digit [y1, y2, y3, y4, m1, m2, d1, d2] \<and>
          (let y = number_of_digits [y1, y2, y3, y4];
               m = number_of_digits [m1, m2];
               d = number_of_digits [d1, d2]
           in 1 \<le> y \<and> 1 \<le> m \<and> m \<le> 12 \<and> 1 \<le> d \<and> d \<le> days_in_month y m)
      | _ \<Rightarrow> False)"

definition userA :: user where
  "userA = \<lparr> user.id = ''user-a'', user.email = ''a@example.com'' \<rparr>"

definition userB :: user where
  "userB = \<lparr> user.id = ''user-b'', user.email = ''b@example.com'' \<rparr>"

definition leadB :: lead where
  "leadB =
     \<lparr> lead.id = ''lead-1'', lead.user_id = ''user-b'', lead.full_name = ''Asha Rao'',
       lead.email = ''asha@example.com'', lead.phone = None, lead.company = Some ''Green Homes'',
       lead.lead_type = Agent, lead.model_type = Purchase, lead.lead_score = 40,
       lead.status = Closed, lead.potential_amount = 3700, lead.notes = None,
       lead.address = ''12 Lake Road'', lead.location_url = None, lead.pincode = None,
       lead.follow_up = Some False, lead.follow_up_date = Some ''2025-08-01'',
       lead.follow_up_notes = Some ''call back'', lead.lead_sealed = None,
       lead.created_at = ''2025-07-09T09:00:00Z'', lead.updated_at = ''2025-07-09T09:00:00Z'' \<rparr>"

definition db0 :: database where
  "db0 = \<lparr> database.leads_table = [leadB],
           database.lead_products_table =
             [\<lparr> lead_product.lead_id = ''lead-1'', lead_product.product_id = ''p-large'',
                lead_product.quantity = 1 \<rparr>],
           database.lead_services_table = [] \<rparr>"

definition be0 :: backend where
  "be0 = \<lparr> backend.now = ''2025-07-10T10:00:00Z'', backend.new_id = ''lead-2'',
           backend.fails = (\<lambda>r. False), backend.date_in = iso_date \<rparr>"

definition catalog0 :: "product list" where
  "catalog0 =
     [\<lparr> item.id = ''p-large'', item.name = ''Compost Bin - Large'', item.description = None,
        item.price = 2500, item.is_active = True, item.created_at = ''2025-07-09T09:00:00Z'',
        item.updated_at = ''2025-07-09T09:00:00Z'' \<rparr>,
      \<lparr> item.id = ''p-small'', item.name = ''Compost Bin - Small'', item.description = None,
        item.price = 1200, item.is_active = True, item.created_at = ''2025-07-09T09:00:00Z'',
        item.updated_at = ''2025-07-09T09:00:00Z'' \<rparr>]"

text \<open>A lead of the first user, a second lead of the second user, and a table of all three.\<close>

definition leadA :: lead where
  "leadA = leadB\<lparr> lead.id := ''lead-a'', lead.user_id := ''user-a'', lead.lead_score := 90 \<rparr>"

definition leadB2 :: lead where
  "leadB2 = leadB\<lparr> lead.id := ''lead-3'', lead.full_name := ''Ravi'',
                  lead.email := ''ravi@greenfields.example'', lead.company := None,
                  lead.lead_score := 75 \<rparr>"

definition db3 :: database where
  "db3 = \<lparr> database.leads_table = [leadB, leadA, leadB2],
           database.lead_products_table = [],
           database.lead_services_table = [] \<rparr>"

text \<open>A backend that refuses the insert into \<open>lead_products\<close> and answers everything else.\<close>

definition be1 :: backend where
  "be1 = \<lparr> backend.now = ''2025-07-10T10:00:00Z'', backend.new_id = ''lead-2'',
           backend.fails = (\<lambda>r. r = LeadProductsInsert), backend.date_in = iso_date \<rparr>"

text \<open>
  The second user's lead with its follow-up gate on, alone in a table.
\<close>

definition leadF :: lead where
  "leadF = leadB\<lparr> lead.follow_up := Some True \<rparr>"

definition dbF :: database where
  "dbF = \<lparr> database.leads_table = [leadF],
           database.lead_products_table = [],
           database.lead_services_table = [] \<rparr>"

text \<open>
  Two products priced 0.10 and 0.20: the numbers the client reads from these decimals
  are the doubles nearest to them.
\<close>

definition catalog_cents :: "product list" where
  "catalog_cents =
     [\<lparr> item.id = ''p-10'', item.name = ''Label'', item.description = None,
        item.price = round_to_double (1 / 10), item.is_active = True,
        item.created_at = ''2025-07-09T09:00:00Z'', item.updated_at = ''2025-07-09T09:00:00Z'' \<rparr>,
      \<lparr> item.id = ''p-20'', item.name = ''Liner'', item.description = None,
        item.price = round_to_double (2 / 10), item.is_active = True,
        item.created_at = ''2025-07-09T09:00:00Z'', item.updated_at = ''2025-07-09T09:00:00Z'' \<rparr>]"







text \<open>A browser for the examples: an e-mail address has an at sign, a URL a scheme.\<close>

definition browser0 :: browser where
  "browser0 = \<lparr> browser.email_ok = (\<lambda>s. CHR ''@'' \<in> set s),
                browser.url_ok = (\<lambda>s. CHR '':'' \<in> set s) \<rparr>"

section \<open>JavaScript numbers: results\<close>

lemma round_half_even_of_int: "round_half_even (of_int m) = m"
  by (simp add: round_half_even_def)

lemma bitlen_pos: "0 < x \<Longrightarrow> 1 \<le> bitlen x"
  by (simp add: bitlen_ge_iff_power)

lemma bitlen_one: "bitlen 1 = 1"
  by (simp add: bitlen_alt_def)

lemma binary_exponent_of_int:
  assumes "n \<noteq> 0"
  shows "binary_exponent (of_int n) = bitlen \<bar>n\<bar> - 1"
proof -
  have pos: "0 < \<bar>n\<bar>" using assms by simp
  have "\<bar>of_int n :: rat\<bar> = of_int \<bar>n\<bar>"
    by simp
  then have q: "quotient_of \<bar>of_int n :: rat\<bar> = (\<bar>n\<bar>, 1)"
    by (simp add: of_int_rat quotient_of_Fract)
  have b: "2 ^ nat (bitlen \<bar>n\<bar> - 1) \<le> \<bar>n\<bar>"
    using bitlen_bounds [OF pos] by simp
  have ge: "0 \<le> bitlen \<bar>n\<bar> - 1"
    using bitlen_pos [OF pos] by simp
  have "(2::rat) powi (bitlen \<bar>n\<bar> - 1) = of_int (2 ^ nat (bitlen \<bar>n\<bar> - 1))"
    using ge by (simp add: power_int_def)
  also have "\<dots> \<le> of_int \<bar>n\<bar>"
    using b by (simp only: of_int_le_iff)
  finally have "(2::rat) powi (bitlen \<bar>n\<bar> - 1) \<le> \<bar>of_int n\<bar>"
    by simp
  then show ?thesis
    unfolding binary_exponent_def q by (simp add: Let_def bitlen_one)
qed

text \<open>A whole number below \<open>2^53\<close> in magnitude is a double.\<close>

lemma round_to_double_of_int:
  assumes "\<bar>n\<bar> < 2 ^ 53"
  shows "round_to_double (of_int n) = of_int n"
proof (cases "n = 0")
  case True
  then show ?thesis by (simp add: round_to_double_def)
next
  case False
  then have pos: "0 < \<bar>n\<bar>" by simp
  define e where "e = bitlen \<bar>n\<bar> - 1"
  have e: "binary_exponent (of_int n) = e"
    using binary_exponent_of_int [OF False] by (simp add: e_def)
  have "bitlen \<bar>n\<bar> \<le> 53"
    using assms by (simp add: bitlen_le_iff_power)
  then have le: "e \<le> 52" by (simp add: e_def)
  have ge: "0 \<le> e"
    using bitlen_pos [OF pos] by (simp add: e_def)
  define j where "j = nat (52 - e)"
  have ulp: "(2::rat) powi (e - 52) = 1 / 2 ^ j"
    using le by (simp add: power_int_def j_def field_simps)
  have m: "max e (- 1022) = e" using ge by simp
  have "of_int n / (1 / 2 ^ j) = (of_int (n * 2 ^ j) :: rat)"
    by simp
  then have r: "round_half_even (of_int n / (1 / 2 ^ j)) = n * 2 ^ j"
    by (simp only: round_half_even_of_int)
  show ?thesis
    using False unfolding round_to_double_def e m Let_def ulp r by simp
qed

lemma js_add_of_int:
  assumes "\<bar>a + b\<bar> < 2 ^ 53"
  shows "js_add (of_int a) (of_int b) = Some (of_int (a + b))"
proof -
  have r: "round_to_double (of_int a + of_int b) = of_int (a + b)"
    using round_to_double_of_int [OF assms] by simp
  have "binary_exponent (of_int (a + b)) < 1024"
  proof (cases "a + b = 0")
    case True
    then show ?thesis by (simp add: binary_exponent_def bitlen_one)
  next
    case False
    have "bitlen \<bar>a + b\<bar> \<le> 53"
      using assms by (simp add: bitlen_le_iff_power)
    then show ?thesis
      using binary_exponent_of_int [OF False] by simp
  qed
  then show ?thesis
    by (simp add: js_add_def r)
qed

lemma js_add_Ints:
  assumes "x \<in> \<int>" and "y \<in> \<int>" and "\<bar>x + y\<bar> < 2 ^ 53"
  shows "js_add x y = Some (x + y)"
proof -
  from assms(1,2) obtain a b where ab: "x = of_int a" "y = of_int b"
    by (auto elim!: Ints_cases)
  have "(of_int \<bar>a + b\<bar> :: rat) < of_int (2 ^ 53)"
    using assms(3) ab by simp
  then have "\<bar>a + b\<bar> < 2 ^ 53"
    by (simp only: of_int_less_iff)
  from js_add_of_int [OF this] ab show ?thesis by simp
qed

text \<open>The values the model gives to the doubles nearest 0.1, 0.2 and 0.3, and to their sum.\<close>

lemma double_tenths:
  "round_to_double (1 / 10) = 3602879701896397 / 36028797018963968"
  "round_to_double (2 / 10) = 3602879701896397 / 18014398509481984"
  "round_to_double (3 / 10) = 5404319552844595 / 18014398509481984"
  "js_add (round_to_double (1 / 10)) (round_to_double (2 / 10))
     = Some (5404319552844596 / 18014398509481984)"
  by code_simp+

section \<open>Amount calculator: results\<close>

lemma find_price_of:
  "or_zero (map_option item.price (find (\<lambda>p. item.id p = i) snapshot)) = price_of snapshot i"
  by (induction snapshot) (auto simp: or_zero_def price_of_def)

lemma price_of_unknown:
  "i \<notin> item.id ` set snapshot \<Longrightarrow> price_of snapshot i = 0"
proof -
  assume "i \<notin> item.id ` set snapshot"
  then have "map_of (map (\<lambda>p. (item.id p, item.price p)) snapshot) i = None"
    by (induction snapshot) auto
  then show ?thesis by (simp add: price_of_def)
qed

lemma price_of_known:
  "distinct (map item.id snapshot) \<Longrightarrow> p \<in> set snapshot \<Longrightarrow>
   price_of snapshot (item.id p) = item.price p"
proof -
  assume d: "distinct (map item.id snapshot)" and m: "p \<in> set snapshot"
  have "distinct (map fst (map (\<lambda>p. (item.id p, item.price p)) snapshot))"
    using d by (simp add: comp_def)
  moreover have "(item.id p, item.price p) \<in> set (map (\<lambda>p. (item.id p, item.price p)) snapshot)"
    using m by auto
  ultimately have "map_of (map (\<lambda>p. (item.id p, item.price p)) snapshot) (item.id p)
                   = Some (item.price p)"
    by (rule map_of_is_SomeI)
  then show ?thesis by (simp add: price_of_def)
qed

text \<open>
  The accumulation of one \<open>reduce\<close>: while the running total and the terms are whole
  numbers that stay below \<open>2^53\<close>, no addition rounds.
\<close>

lemma reduce_whole:
  assumes "acc \<in> \<int>" and "\<forall>x \<in> set xs. f x \<in> \<int>"
      and "\<bar>acc\<bar> + sum_list (map (\<lambda>x. \<bar>f x\<bar>) xs) < 2 ^ 53"
  shows "foldl (\<lambda>sum x. case sum of None \<Rightarrow> None | Some s \<Rightarrow> js_add s (f x)) (Some acc) xs
         = Some (acc + sum_list (map f xs))"
  using assms
proof (induction xs arbitrary: acc)
  case Nil
  then show ?case by simp
next
  case (Cons x xs)
  have fx: "f x \<in> \<int>" using Cons.prems(2) by simp
  have "\<bar>acc + f x\<bar> \<le> \<bar>acc\<bar> + \<bar>f x\<bar>" by simp
  moreover have "0 \<le> sum_list (map (\<lambda>x. \<bar>f x\<bar>) xs)"
    by (rule sum_list_nonneg) auto
  ultimately have small: "\<bar>acc + f x\<bar> < 2 ^ 53"
    and rest: "\<bar>acc + f x\<bar> + sum_list (map (\<lambda>x. \<bar>f x\<bar>) xs) < 2 ^ 53"
    using Cons.prems(3) by simp_all
  have step: "js_add acc (f x) = Some (acc + f x)"
    using js_add_Ints [OF Cons.prems(1) fx small] .
  have "acc + f x \<in> \<int>" using Cons.prems(1) fx by simp
  from Cons.IH [OF this _ rest] Cons.prems(2) step show ?case
    by (simp add: add.assoc)
qed

lemma abs_sum_list_le: "\<bar>sum_list (map f xs)\<bar> \<le> sum_list (map (\<lambda>x. \<bar>f x :: rat\<bar>) xs)"
  by (induction xs) (simp_all add: abs_triangle_ineq [THEN order_trans])

lemma sum_list_Ints: "\<forall>x \<in> set xs. f x \<in> \<int> \<Longrightarrow> sum_list (map f xs) \<in> (\<int> :: rat set)"
  by (induction xs) simp_all

text \<open>
  C1, as the code has it. \<open>calculatedAmount\<close> adds JavaScript numbers: from 0, from left
  to right, each addition rounded to the nearest double, an id that resolves to no item
  counting 0 and raising no error. When the prices the selected ids resolve to are whole
  numbers and their magnitudes total less than \<open>2^53\<close>, no addition rounds and the
  result is exactly the sum of the prices of the selected products plus the sum of the
  prices of the selected services.
\<close>

theorem calculatedAmount_exact_on_whole_prices:
  assumes "\<forall>i \<in> set selectedProducts. price_of products i \<in> \<int>"
      and "\<forall>i \<in> set selectedServices. price_of services i \<in> \<int>"
      and "sum_list (map (\<lambda>i. \<bar>price_of products i\<bar>) selectedProducts)
           + sum_list (map (\<lambda>i. \<bar>price_of services i\<bar>) selectedServices) < 2 ^ 53"
  shows "calculatedAmount products services selectedProducts selectedServices
         = Some (spec_total products services selectedProducts selectedServices)"
proof -
  let ?P = "sum_list (map (price_of products) selectedProducts)"
  let ?S = "sum_list (map (price_of services) selectedServices)"
  let ?aP = "sum_list (map (\<lambda>i. \<bar>price_of products i\<bar>) selectedProducts)"
  let ?aS = "sum_list (map (\<lambda>i. \<bar>price_of services i\<bar>) selectedServices)"
  have nn: "0 \<le> ?aP" "0 \<le> ?aS"
    by (rule sum_list_nonneg, auto)+
  have p: "foldl (\<lambda>sum i. case sum of None \<Rightarrow> None
                          | Some s \<Rightarrow> js_add s (price_of products i)) (Some 0) selectedProducts
           = Some (0 + ?P)"
    by (rule reduce_whole) (use assms nn in simp_all)
  have s: "foldl (\<lambda>sum i. case sum of None \<Rightarrow> None
                          | Some s \<Rightarrow> js_add s (price_of services i)) (Some 0) selectedServices
           = Some (0 + ?S)"
    by (rule reduce_whole) (use assms nn in simp_all)
  have "\<bar>?P + ?S\<bar> \<le> ?aP + ?aS"
    using abs_sum_list_le [of "price_of products" selectedProducts]
          abs_sum_list_le [of "price_of services" selectedServices]
    by linarith
  then have "\<bar>?P + ?S\<bar> < 2 ^ 53"
    using assms(3) by linarith
  then have t: "js_add ?P ?S = Some (?P + ?S)"
    using sum_list_Ints [OF assms(1)] sum_list_Ints [OF assms(2)]
    by (intro js_add_Ints) simp_all
  show ?thesis
    unfolding calculatedAmount_def spec_total_def find_price_of Let_def
    using p s t by simp
qed

text \<open>
  The scenario of the specification: the products priced 2500.00 and 1200.00 selected,
  with an id that is not in the snapshot, and no service.
\<close>

theorem calculatedAmount_exact_on_whole_prices_witness:
  "calculatedAmount catalog0 [] [''p-large'', ''p-small'', ''p-gone''] [] = Some 3700"
proof -
  have v: "map (price_of catalog0) [''p-large'', ''p-small'', ''p-gone''] = [2500, 1200, 0]"
    by (simp add: price_of_def catalog0_def)
  then have p: "price_of catalog0 ''p-large'' = 2500" "price_of catalog0 ''p-small'' = 1200"
    "price_of catalog0 ''p-gone'' = 0"
    by simp_all
  have a: "\<forall>i \<in> set [''p-large'', ''p-small'', ''p-gone'']. price_of catalog0 i \<in> \<int>"
    using p by simp
  have b: "\<forall>i \<in> set ([] :: uuid list). price_of [] i \<in> \<int>"
    by simp
  have c: "sum_list (map (\<lambda>i. \<bar>price_of catalog0 i\<bar>) [''p-large'', ''p-small'', ''p-gone''])
           + sum_list (map (\<lambda>i. \<bar>price_of [] i\<bar>) ([] :: uuid list)) < 2 ^ 53"
    using p by simp
  from calculatedAmount_exact_on_whole_prices [OF a b c] p show ?thesis
    by (simp add: spec_total_def)
qed

text \<open>
  The specification asks for exactly the sum. With the products priced 0.10 and 0.20
  selected, the total is 0.3000000000000000444 (the double above 0.3): neither the sum of
  the two prices the client holds, nor 0.30.
\<close>

theorem calculatedAmount_rounds:
  "calculatedAmount catalog_cents [] [''p-10'', ''p-20''] []
     \<noteq> Some (spec_total catalog_cents [] [''p-10'', ''p-20''] []) \<and>
   calculatedAmount catalog_cents [] [''p-10'', ''p-20''] [] \<noteq> Some (3 / 10) \<and>
   calculatedAmount catalog_cents [] [''p-10'', ''p-20''] []
     = Some (5404319552844596 / 18014398509481984)"
  by code_simp

text \<open>
  C5. The effect writes the calculated amount into the form exactly when a new lead is
  being created and the amount is positive, and then the field is read-only. When an
  existing lead is edited, or the amount is not positive, the effect leaves the form as it
  is, the field is editable, and a manual entry is taken as typed.
\<close>

theorem calculator_writes_only_on_positive_create:
  "(lead = None \<and> 0 < calculated \<longrightarrow>
      autoUpdateAmount lead calculated fd = fd\<lparr> formData.potential_amount := calculated \<rparr> \<and>
      amountReadOnly lead calculated) \<and>
   (lead \<noteq> None \<or> calculated \<le> 0 \<longrightarrow>
      autoUpdateAmount lead calculated fd = fd \<and>
      \<not> amountReadOnly lead calculated \<and>
      formData.potential_amount (amountChange lead calculated v fd) = v)"
  by (auto simp: autoUpdateAmount_def amountReadOnly_def amountChange_def)

theorem calculator_writes_only_on_positive_create_witness:
  "formData.potential_amount (autoUpdateAmount None 3700 initialFormData) = 3700 \<and>
   amountReadOnly None 3700 \<and>
   autoUpdateAmount (Some leadB) 3700 (loadLead leadB) = loadLead leadB \<and>
   \<not> amountReadOnly (Some leadB) 3700 \<and>
   autoUpdateAmount None 0 (initialFormData\<lparr> formData.potential_amount := 5 \<rparr>)
     = initialFormData\<lparr> formData.potential_amount := 5 \<rparr> \<and>
   formData.potential_amount (amountChange None 0 42 initialFormData) = 42"
  using calculator_writes_only_on_positive_create [of None 3700 initialFormData 0]
        calculator_writes_only_on_positive_create [of "Some leadB" 3700 "loadLead leadB" 0]
        calculator_writes_only_on_positive_create
          [of None 0 "initialFormData\<lparr> formData.potential_amount := 5 \<rparr>" 0]
        calculator_writes_only_on_positive_create [of None 0 initialFormData 42]
  by simp

section \<open>Selection toggles: results\<close>

text \<open>
  C9. Toggling the same id twice gives a selection with the same set of ids. One toggle
  appends the id when it is absent, and removes every occurrence of it when it is
  present.
\<close>

theorem toggle_twice_same_ids:
  "set (handleProductToggle i (handleProductToggle i prev)) = set prev \<and>
   set (handleServiceToggle i (handleServiceToggle i prev)) = set prev \<and>
   (i \<notin> set prev \<longrightarrow>
      handleProductToggle i prev = prev @ [i] \<and> handleServiceToggle i prev = prev @ [i]) \<and>
   (i \<in> set prev \<longrightarrow>
      set (handleProductToggle i prev) = set prev - {i} \<and>
      set (handleServiceToggle i prev) = set prev - {i} \<and>
      count_list (handleProductToggle i prev) i = 0 \<and>
      count_list (handleServiceToggle i prev) i = 0)"
  by (auto simp: handleProductToggle_def handleServiceToggle_def count_list_0_iff)

theorem toggle_twice_same_ids_witness:
  "set (handleProductToggle ''p-small''
          (handleProductToggle ''p-small'' [''p-large'', ''p-small'', ''p-small'']))
     = set [''p-large'', ''p-small'', ''p-small''] \<and>
   handleProductToggle ''p-small'' [''p-large''] = [''p-large'', ''p-small''] \<and>
   handleServiceToggle ''p-small'' [''p-large'', ''p-small'', ''p-small''] = [''p-large'']"
  using toggle_twice_same_ids [of "''p-small''" "[''p-large'', ''p-small'', ''p-small'']"]
        toggle_twice_same_ids [of "''p-small''" "[''p-large'']"]
  by (simp add: handleProductToggle_def handleServiceToggle_def)

section \<open>Dashboard list: results\<close>

lemma str_includes_Nil: "str_includes s []"
  by (cases s) simp_all


text \<open>The table of letters, read by code unit.\<close>

lemma char_is_char_of: "(c = char_of (n :: nat)) = (of_char c = take_bit 8 n)"
  using char_of_eq_iff [of n c] by auto



lemma toLowerCase_examples:
  "toLowerCase ''GrEEn Homes-42'' = ''green homes-42''"
  "toLowerCase [CHR 0xC9, CHR 0xD7, CHR 0xDE, CHR 0xDF] = [CHR 0xE9, CHR 0xD7, CHR 0xFE, CHR 0xDF]"
  by (simp_all add: toLowerCase_def toLowerChar_def char_of_eq_iff char_is_char_of)











text \<open>
  C10. With an empty search term and the three filters unset, \<open>filteredLeads\<close> returns
  the fetched list itself: the same leads in the same order.
\<close>

theorem filteredLeads_no_filters_identity:
  "filteredLeads leads '''' None None None = leads"
  by (simp add: filteredLeads_def toLowerCase_def str_includes_Nil)

theorem filteredLeads_no_filters_identity_witness:
  "filteredLeads [leadB, leadA, leadB2] '''' None None None = [leadB, leadA, leadB2]"
  using filteredLeads_no_filters_identity [of "[leadB, leadA, leadB2]"]
  by simp

section \<open>Storage: what a write touches\<close>

text \<open>
  What \<open>decimal(10,2)\<close> stores for some numbers: 1.005 and 2.675 are sent as these
  decimals, though the doubles lie below them; 0.30000000000000004 is stored as 0.30.
\<close>

lemma numeric_10_2_examples:
  "numeric_10_2 3700 = 3700"
  "numeric_10_2 (12345 / 1000) = 1235 / 100"
  "numeric_10_2 (- (12345 / 1000)) = - (1235 / 100)"
  "numeric_10_2 (round_to_double (1005 / 1000)) = 101 / 100"
  "numeric_10_2 (round_to_double (2675 / 1000)) = 268 / 100"
  "numeric_10_2 (5404319552844596 / 18014398509481984) = 3 / 10"
  "\<not> numeric_10_2_ok (numeric_10_2 (99999999995 / 1000))"
  by code_simp+

lemma iso_date_examples:
  "iso_date ''2025-08-01''" "\<not> iso_date ''2025-02-30''" "iso_date ''2024-02-29''"
  "\<not> iso_date ''2025-8-1''"
  by code_simp+

lemma first_error_Nil: "first_error be [] = None"
  by (simp add: first_error_def List.map_filter_simps)

lemma first_error_None_iff:
  "first_error be rows = None \<longleftrightarrow> (\<forall>r \<in> set rows. column_error be r = None)"
proof (induction rows)
  case Nil
  then show ?case by (simp add: first_error_Nil)
next
  case (Cons r rows)
  then show ?case
    by (cases "column_error be r")
       (auto simp: first_error_def List.map_filter_simps split: list.splits)
qed

lemma leads_update_no_hit:
  assumes "\<forall>r \<in> set (database.leads_table db). lead.id r = i \<longrightarrow> lead.user_id r \<noteq> u"
  shows "leads_update be p i u db =
           (db, if backend.fails be LeadsUpdate then Inl (BackendError LeadsUpdate) else Inr [])"
proof -
  have f: "filter (\<lambda>l. lead.id l = i \<and> lead.user_id l = u) (database.leads_table db) = []"
    using assms by (auto simp: filter_empty_conv)
  have m: "map (\<lambda>l. if lead.id l = i \<and> lead.user_id l = u then w l else l)
             (database.leads_table db) = database.leads_table db" for w
    using assms by (intro map_idI) auto
  show ?thesis
    unfolding leads_update_def Let_def f m by (simp add: first_error_Nil)
qed

lemma leads_delete_no_hit:
  assumes "\<forall>r \<in> set (database.leads_table db). lead.id r = i \<longrightarrow> lead.user_id r \<noteq> u"
  shows "leads_delete be i u db =
           (db, if backend.fails be LeadsDelete then Inl (BackendError LeadsDelete) else Inr ())"
proof -
  have f: "filter (\<lambda>l. lead.id l = i \<and> lead.user_id l = u) (database.leads_table db) = []"
    using assms by (auto simp: filter_empty_conv)
  have g: "filter (\<lambda>l. \<not> (lead.id l = i \<and> lead.user_id l = u)) (database.leads_table db)
           = database.leads_table db"
    using assms by (auto simp: filter_id_conv)
  show ?thesis
    unfolding leads_delete_def Let_def f g by simp
qed

lemma leads_update_associations:
  "database.lead_products_table (fst (leads_update be p i u db)) = database.lead_products_table db"
  "database.lead_services_table (fst (leads_update be p i u db)) = database.lead_services_table db"
  by (simp_all add: leads_update_def Let_def split: option.splits)

lemma leads_insert_done:
  assumes "leads_insert be row db = (db1, Inr rows)"
  shows "db1 = db\<lparr> database.leads_table := database.leads_table db @ [row] \<rparr> \<and> rows = [row]"
  using assms by (auto simp: leads_insert_def split: if_splits option.splits)

text \<open>
  A write whose every row is refused by a column type or by the \<open>CHECK\<close> leaves the
  database as it was and returns no row.
\<close>

lemma leads_insert_refused:
  assumes "column_error be row \<noteq> None"
  shows "\<exists>e. leads_insert be row db = (db, Inl e)"
  using assms by (auto simp: leads_insert_def)

lemma leads_update_refused:
  assumes "\<And>l. column_error be ((p l)\<lparr> lead.updated_at := backend.now be \<rparr>) \<noteq> None"
  shows "\<exists>e. (fst (leads_update be p i u db), single (snd (leads_update be p i u db)))
              = (db, Inl e)"
proof (cases "\<exists>r \<in> set (database.leads_table db). lead.id r = i \<and> lead.user_id r = u")
  case True
  then obtain r where r: "r \<in> set (database.leads_table db)" "lead.id r = i \<and> lead.user_id r = u"
    by blast
  let ?rows = "map (\<lambda>l. (p l)\<lparr> lead.updated_at := backend.now be \<rparr>)
                 (filter (\<lambda>l. lead.id l = i \<and> lead.user_id l = u) (database.leads_table db))"
  have "(p r)\<lparr> lead.updated_at := backend.now be \<rparr> \<in> set ?rows"
    using r by auto
  then have "\<not> (\<forall>x \<in> set ?rows. column_error be x = None)"
    using assms by blast
  then have "first_error be ?rows \<noteq> None"
    using first_error_None_iff [of be ?rows] by blast
  then obtain e where "first_error be ?rows = Some e"
    by blast
  then show ?thesis
    by (simp add: leads_update_def Let_def single_def)
next
  case False
  then have "\<forall>r \<in> set (database.leads_table db). lead.id r = i \<longrightarrow> lead.user_id r \<noteq> u"
    by blast
  from leads_update_no_hit [OF this] show ?thesis
    by (simp add: single_def)
qed

lemma handleSubmit_refused:
  assumes "\<And>l. column_error be ((update_payload fd l)\<lparr> lead.updated_at := backend.now be \<rparr>) \<noteq> None"
      and "\<And>u. column_error be (insert_row be fd u) \<noteq> None"
  shows "fst (handleSubmit be user lead fd sp ss db) = db \<and>
         snd (handleSubmit be user lead fd sp ss db) \<noteq> Completed"
proof (cases user)
  case None
  then show ?thesis by (simp add: handleSubmit_def)
next
  case (Some u)
  show ?thesis
  proof (cases lead)
    case None
    from leads_insert_refused [OF assms(2), of "user.id u" db]
    obtain e where "leads_insert be (insert_row be fd (user.id u)) db = (db, Inl e)"
      by blast
    with Some None show ?thesis
      by (simp add: handleSubmit_def single_def)
  next
    case (Some l)
    from leads_update_refused [of be "update_payload fd", OF assms(1), of "lead.id l" "user.id u" db]
    obtain e where e: "fst (leads_update be (update_payload fd) (lead.id l) (user.id u) db) = db"
      "single (snd (leads_update be (update_payload fd) (lead.id l) (user.id u) db)) = Inl e"
      by auto
    with \<open>user = Some u\<close> Some show ?thesis
      by (auto simp: handleSubmit_def split: prod.splits)
  qed
qed

lemma insert_associations_leads:
  "database.leads_table (fst (insert_associations be row sp ss db)) = database.leads_table db"
  by (simp add: insert_associations_def lead_products_insert_def lead_services_insert_def
        split: prod.splits sum.splits)

lemma insert_associations_logged:
  assumes "insert_associations be row sp ss db = (db2, Logged e)"
  shows "database.lead_services_table db2 = database.lead_services_table db \<and>
         (database.lead_products_table db2 = database.lead_products_table db \<or>
          database.lead_products_table db2 =
            database.lead_products_table db @
            map (\<lambda>productId. \<lparr> lead_product.lead_id = lead.id row,
                                lead_product.product_id = productId,
                                lead_product.quantity = 1 \<rparr>) sp)"
  using assms
  by (auto simp: insert_associations_def lead_products_insert_def lead_services_insert_def
        split: prod.splits sum.splits if_splits)

lemma handleSubmit_update_fst:
  "fst (handleSubmit be user (Some l) fd sp ss db)
   = (case user of None \<Rightarrow> db
      | Some u \<Rightarrow> fst (leads_update be (update_payload fd) (lead.id l) (user.id u) db))"
  by (simp add: handleSubmit_def split: option.splits prod.splits sum.splits)

section \<open>Associations: results\<close>

text \<open>
  C7. The association tables are written only on the path that creates a lead: whatever
  the user, the form, the selections and the backend's answers, a submit that edits an
  existing lead leaves \<open>lead_products\<close> and \<open>lead_services\<close> exactly as they were.
\<close>

theorem update_leaves_associations:
  "database.lead_products_table (fst (handleSubmit be user (Some l) fd sp ss db))
     = database.lead_products_table db \<and>
   database.lead_services_table (fst (handleSubmit be user (Some l) fd sp ss db))
     = database.lead_services_table db"
  by (cases user) (simp_all add: handleSubmit_update_fst leads_update_associations)

text \<open>An edit by the owner with a product and a service selected; the edit itself succeeds.\<close>

theorem update_leaves_associations_witness:
  "snd (handleSubmit be0 (Some userB) (Some leadB) (loadLead leadB) [''p-small''] [''s-1''] db0)
     = Completed \<and>
   database.lead_products_table
     (fst (handleSubmit be0 (Some userB) (Some leadB) (loadLead leadB) [''p-small''] [''s-1''] db0))
     = database.lead_products_table db0 \<and>
   database.lead_services_table
     (fst (handleSubmit be0 (Some userB) (Some leadB) (loadLead leadB) [''p-small''] [''s-1''] db0))
     = []"
proof -
  have "snd (handleSubmit be0 (Some userB) (Some leadB) (loadLead leadB) [''p-small''] [''s-1''] db0)
        = Completed"
    by code_simp
  moreover have "database.lead_services_table db0 = []"
    by (simp add: db0_def)
  ultimately show ?thesis
    using update_leaves_associations
            [of be0 "Some userB" leadB "loadLead leadB" "[''p-small'']" "[''s-1'']" db0]
    by simp
qed

text \<open>
  C8. When the insert of the lead row has succeeded and an association insert then
  fails, \<open>handleSubmit\<close> ends in the error path with that error (caught and logged, the
  success callback not invoked), and the database it leaves still holds the new lead row:
  nothing is rolled back. The service associations are missing, and the product
  associations are either missing or all present.
\<close>

theorem association_failure_keeps_lead:
  assumes "leads_insert be (insert_row be fd (user.id u)) db = (db1, Inr [row])"
      and "insert_associations be row sp ss db1 = (db2, Logged e)"
  shows "handleSubmit be (Some u) None fd sp ss db = (db2, Logged e) \<and>
         database.leads_table db2 = database.leads_table db @ [row] \<and>
         row = insert_row be fd (user.id u) \<and>
         database.lead_services_table db2 = database.lead_services_table db \<and>
         (database.lead_products_table db2 = database.lead_products_table db \<or>
          database.lead_products_table db2 =
            database.lead_products_table db @
            map (\<lambda>productId. \<lparr> lead_product.lead_id = lead.id row,
                                lead_product.product_id = productId,
                                lead_product.quantity = 1 \<rparr>) sp)"
proof -
  have h: "handleSubmit be (Some u) None fd sp ss db = (db2, Logged e)"
    using assms by (simp add: handleSubmit_def single_def)
  have db1: "db1 = db\<lparr> database.leads_table := database.leads_table db @ [row] \<rparr>
             \<and> row = insert_row be fd (user.id u)"
    using leads_insert_done [OF assms(1)] by simp
  have "database.leads_table db2 = database.leads_table db1"
    using insert_associations_leads [of be row sp ss db1] assms(2) by simp
  with db1 have l: "database.leads_table db2 = database.leads_table db @ [row]"
    by simp
  from insert_associations_logged [OF assms(2)] db1 h l show ?thesis
    by simp
qed

text \<open>
  A new lead with one product selected, on a backend that refuses the insert into
  \<open>lead_products\<close>: the lead row is in the table, the error is logged.
\<close>

theorem association_failure_keeps_lead_witness:
  "handleSubmit be1 (Some userA) None (loadLead leadB) [''p-large''] [] db0
     = (db0\<lparr> database.leads_table := [leadB, insert_row be1 (loadLead leadB) ''user-a''] \<rparr>,
        Logged (BackendError LeadProductsInsert))"
proof -
  let ?row = "insert_row be1 (loadLead leadB) ''user-a''"
  let ?db1 = "db0\<lparr> database.leads_table := [leadB, ?row] \<rparr>"
  have h1: "leads_insert be1 (insert_row be1 (loadLead leadB) (user.id userA)) db0
            = (?db1, Inr [?row])"
    by code_simp
  have h2: "insert_associations be1 ?row [''p-large''] [] ?db1
            = (?db1, Logged (BackendError LeadProductsInsert))"
    by code_simp
  from association_failure_keeps_lead [OF h1 h2] show ?thesis
    by simp
qed

section \<open>Score range: results\<close>

lemma column_error_bad_score:
  assumes "lead.lead_score r < 0 \<or> 100 < lead.lead_score r"
  shows "column_error be r \<noteq> None"
  using assms by (auto simp: column_error_def lead_score_check_def)

text \<open>
  C4. A form whose \<open>lead_score\<close> is below 0 or above 100 is not submitted: for a new
  lead and for an edit, whatever the user, the backend and the rest of the form, pressing
  the submit button ends in \<open>Invalid\<close> (the validation error: the value is reported at
  the form and no request is made) and the database is as it was. Beneath that, a
  \<open>handleSubmit\<close> run on such a form never completes and never writes either: the
  \<open>leads\<close> table refuses the row.
\<close>

theorem out_of_range_score_rejected:
  assumes "formData.lead_score fd < 0 \<or> 100 < formData.lead_score fd"
  shows "submitForm br be user None calculated fd sp ss db = (db, Invalid) \<and>
         submitForm br be user (Some l) calculated fd sp ss db = (db, Invalid) \<and>
         fst (handleSubmit be user lead fd sp ss db) = db \<and>
         snd (handleSubmit be user lead fd sp ss db) \<noteq> Completed"
proof -
  have inv: "\<not> form_valid br ld calculated fd" for ld
    using assms by (auto simp: form_valid_def)
  have a: "column_error be ((update_payload fd r)\<lparr> lead.updated_at := backend.now be \<rparr>) \<noteq> None"
    for r
    by (rule column_error_bad_score) (use assms in \<open>simp add: update_payload_def\<close>)
  have b: "column_error be (insert_row be fd u) \<noteq> None" for u
    by (rule column_error_bad_score) (use assms in \<open>simp add: insert_row_def\<close>)
  from handleSubmit_refused [of be fd, OF a b] inv show ?thesis
    by (simp add: submitForm_def)
qed

text \<open>
  The second user's lead, valid as a form, with the score changed to 150 for a new lead
  and to -1 for an edit: the button ends in \<open>Invalid\<close>; the handler run on the same forms
  ends in the error of the \<open>CHECK\<close>.
\<close>

theorem out_of_range_score_rejected_witness:
  "form_valid browser0 None 0 (loadLead leadB) \<and>
   submitForm browser0 be0 (Some userB) None 0 ((loadLead leadB)\<lparr> formData.lead_score := 150 \<rparr>)
       [] [] db0
     = (db0, Invalid) \<and>
   submitForm browser0 be0 (Some userB) (Some leadB) 0
       ((loadLead leadB)\<lparr> formData.lead_score := - 1 \<rparr>) [] [] db0
     = (db0, Invalid) \<and>
   handleSubmit be0 (Some userB) None ((loadLead leadB)\<lparr> formData.lead_score := 150 \<rparr>) [] [] db0
     = (db0, Logged CheckViolation) \<and>
   handleSubmit be0 (Some userB) (Some leadB) ((loadLead leadB)\<lparr> formData.lead_score := - 1 \<rparr>)
       [] [] db0
     = (db0, Logged CheckViolation)"
proof -
  have a: "formData.lead_score ((loadLead leadB)\<lparr> formData.lead_score := 150 \<rparr>) < 0 \<or>
           100 < formData.lead_score ((loadLead leadB)\<lparr> formData.lead_score := 150 \<rparr>)"
    by simp
  have b: "formData.lead_score ((loadLead leadB)\<lparr> formData.lead_score := - 1 \<rparr>) < 0 \<or>
           100 < formData.lead_score ((loadLead leadB)\<lparr> formData.lead_score := - 1 \<rparr>)"
    by simp
  have v: "form_valid browser0 None 0 (loadLead leadB)"
    by code_simp
  have c: "handleSubmit be0 (Some userB) None ((loadLead leadB)\<lparr> formData.lead_score := 150 \<rparr>)
             [] [] db0 = (db0, Logged CheckViolation)"
    by code_simp
  have d: "handleSubmit be0 (Some userB) (Some leadB)
             ((loadLead leadB)\<lparr> formData.lead_score := - 1 \<rparr>) [] [] db0
           = (db0, Logged CheckViolation)"
    by code_simp
  from out_of_range_score_rejected [OF a, of browser0 be0 "Some userB" 0 "[]" "[]" db0 leadB None]
       out_of_range_score_rejected [OF b, of browser0 be0 "Some userB" 0 "[]" "[]" db0 leadB None]
       v c d
  show ?thesis by simp
qed

section \<open>Ownership: results\<close>

lemma foreign_no_hit:
  assumes "distinct (map lead.id (database.leads_table db))"
      and "l \<in> set (database.leads_table db)" and "lead.user_id l \<noteq> u"
  shows "\<forall>r \<in> set (database.leads_table db). lead.id r = lead.id l \<longrightarrow> lead.user_id r \<noteq> u"
  using assms by (auto simp: distinct_map inj_on_def)

lemma unknown_no_hit:
  assumes "lead.id l' \<notin> lead.id ` set (database.leads_table db)"
  shows "\<forall>r \<in> set (database.leads_table db). lead.id r = lead.id l' \<longrightarrow> lead.user_id r \<noteq> u"
  using assms by (metis imageI)

lemma handlers_no_hit:
  assumes "\<forall>r \<in> set (database.leads_table db). lead.id r = lead.id l \<longrightarrow> lead.user_id r \<noteq> user.id a"
  shows "handleSubmit be (Some a) (Some l) fd sp ss db =
           (db, Logged (if backend.fails be LeadsUpdate then BackendError LeadsUpdate
                        else NoSingleRow))"
    and "handleDelete be (Some a) True (lead.id l) db =
           (db, if backend.fails be LeadsDelete then Logged (BackendError LeadsDelete)
                else Completed)"
    and "handleStatusChange be (Some a) (lead.id l) s db =
           (db, if backend.fails be LeadsUpdate then Logged (BackendError LeadsUpdate)
                else Completed)"
  by (simp_all add: handleSubmit_def handleDelete_def handleStatusChange_def single_def
        leads_update_no_hit [OF assms] leads_delete_no_hit [OF assms])

text \<open>
  C3, as the code has it. For a lead in the table (ids being the primary key) that does
  not belong to the user, an update, a confirmed delete and a status change by that
  user leave the whole database unchanged, and each behaves exactly as it does for an id
  that is in no row. The full update ends in the error path (\<open>.single()\<close> finds no row);
  delete and status change raise no error and invoke their success callback, unless the
  backend itself fails the request.
\<close>

theorem foreign_lead_untouched:
  assumes "distinct (map lead.id (database.leads_table db))"
      and "l \<in> set (database.leads_table db)"
      and "lead.user_id l \<noteq> user.id a"
      and "lead.id l' \<notin> lead.id ` set (database.leads_table db)"
  shows "handleSubmit be (Some a) (Some l) fd sp ss db =
           (db, Logged (if backend.fails be LeadsUpdate then BackendError LeadsUpdate
                        else NoSingleRow)) \<and>
         handleDelete be (Some a) True (lead.id l) db =
           (db, if backend.fails be LeadsDelete then Logged (BackendError LeadsDelete)
                else Completed) \<and>
         handleStatusChange be (Some a) (lead.id l) s db =
           (db, if backend.fails be LeadsUpdate then Logged (BackendError LeadsUpdate)
                else Completed) \<and>
         handleSubmit be (Some a) (Some l') fd sp ss db
           = handleSubmit be (Some a) (Some l) fd sp ss db \<and>
         handleDelete be (Some a) True (lead.id l') db
           = handleDelete be (Some a) True (lead.id l) db \<and>
         handleStatusChange be (Some a) (lead.id l') s db
           = handleStatusChange be (Some a) (lead.id l) s db"
  using handlers_no_hit [OF foreign_no_hit [OF assms(1,2,3)]]
        handlers_no_hit [OF unknown_no_hit [OF assms(4)]]
  by simp

text \<open>The first user acting on the second user's lead, and on an id that does not exist.\<close>

theorem foreign_lead_untouched_witness:
  "handleSubmit be0 (Some userA) (Some leadB) (loadLead leadB) [] [] db3
     = (db3, Logged NoSingleRow) \<and>
   handleDelete be0 (Some userA) True ''lead-1'' db3 = (db3, Completed) \<and>
   handleStatusChange be0 (Some userA) ''lead-1'' New db3 = (db3, Completed) \<and>
   handleDelete be0 (Some userA) True ''lead-9'' db3 = (db3, Completed) \<and>
   handleStatusChange be0 (Some userA) ''lead-9'' New db3 = (db3, Completed)"
proof -
  have a: "distinct (map lead.id (database.leads_table db3))"
    by (simp add: db3_def leadA_def leadB_def leadB2_def)
  have b: "leadB \<in> set (database.leads_table db3)"
    by (simp add: db3_def)
  have c: "lead.user_id leadB \<noteq> user.id userA"
    by (simp add: leadB_def userA_def)
  have d: "lead.id (leadB\<lparr> lead.id := ''lead-9'' \<rparr>) \<notin> lead.id ` set (database.leads_table db3)"
    by (simp add: db3_def leadA_def leadB_def leadB2_def)
  have e: "\<not> backend.fails be0 LeadsUpdate" "\<not> backend.fails be0 LeadsDelete"
    by (simp_all add: be0_def)
  have f: "lead.id leadB = ''lead-1''"
    by (simp add: leadB_def)
  from foreign_lead_untouched [OF a b c d, of be0 "loadLead leadB" "[]" "[]" New] e f
  show ?thesis by simp
qed

text \<open>
  The specification asks for a \<open>NotFound\<close> report here. A confirmed delete and a status
  change by the first user on the second user's lead both end with the success callback.
\<close>

theorem foreign_delete_reports_success:
  "handleDelete be0 (Some userA) True (lead.id leadB) db0 = (db0, Completed) \<and>
   handleStatusChange be0 (Some userA) (lead.id leadB) New db0 = (db0, Completed) \<and>
   leadB \<in> set (database.leads_table db0) \<and>
   lead.user_id leadB = user.id userB \<and>
   user.id userA \<noteq> user.id userB"
  by code_simp

section \<open>Follow-up gate: results\<close>

lemma coupled_initial: "coupled initialFormData"
  by (simp add: coupled_def initialFormData_def)

lemma coupled_followUpChange: "coupled (followUpChange checked prev)"
  by (simp add: coupled_def followUpChange_def)

lemma coupled_followUpDateChange: "coupled prev \<Longrightarrow> coupled (followUpDateChange v prev)"
  by (auto simp: coupled_def followUpDateChange_def)

lemma coupled_followUpNotesChange: "coupled prev \<Longrightarrow> coupled (followUpNotesChange v prev)"
  by (auto simp: coupled_def followUpNotesChange_def)

text \<open>
  The checkbox clears the two fields to the empty string, and the empty string is what
  the \<open>date\<close> column refuses: no form whose follow-up date is empty is ever saved, as a
  new lead or as an edit.
\<close>

lemma column_error_empty_date:
  assumes "lead.follow_up_date r = Some ''''"
  shows "column_error be r \<noteq> None"
  using assms by (auto simp: column_error_def date_ok_def)

lemma empty_follow_up_date_never_saved:
  assumes "formData.follow_up_date fd = ''''"
  shows "fst (handleSubmit be user lead fd sp ss db) = db \<and>
         snd (handleSubmit be user lead fd sp ss db) \<noteq> Completed"
proof -
  have a: "column_error be ((update_payload fd r)\<lparr> lead.updated_at := backend.now be \<rparr>) \<noteq> None"
    for r
    by (rule column_error_empty_date) (use assms in \<open>simp add: update_payload_def\<close>)
  have b: "column_error be (insert_row be fd u) \<noteq> None" for u
    by (rule column_error_empty_date) (use assms in \<open>simp add: insert_row_def\<close>)
  from handleSubmit_refused [of be fd, OF a b] show ?thesis .
qed

lemma unchecked_form_never_saved:
  "fst (handleSubmit be user lead (followUpChange False prev) sp ss db) = db \<and>
   snd (handleSubmit be user lead (followUpChange False prev) sp ss db) \<noteq> Completed"
  by (rule empty_follow_up_date_never_saved) (simp add: followUpChange_def)

text \<open>
  C2. The specification asks that after an update with \<open>follow_up\<close> false the lead's
  \<open>follow_up_date\<close> and \<open>follow_up_notes\<close> are null. The owner opens a lead of their
  own, which has the gate on, a date and notes, unchecks the box, which empties both
  fields of the form, and presses the button. The form is valid and \<open>handleSubmit\<close> runs; the update is
  refused for the empty date and logged; the lead keeps \<open>follow_up\<close> true, its date and
  its notes.
\<close>

theorem unchecked_follow_up_update_refused:
  "formData.follow_up (followUpChange False (loadLead leadF)) = False \<and>
   formData.follow_up_date (followUpChange False (loadLead leadF)) = '''' \<and>
   formData.follow_up_notes (followUpChange False (loadLead leadF)) = '''' \<and>
   submitForm browser0 be0 (Some userB) (Some leadF) 0 (followUpChange False (loadLead leadF))
       [] [] dbF
     = (dbF, Submitted (Logged InvalidDate)) \<and>
   map lead.follow_up (database.leads_table dbF) = [Some True] \<and>
   map lead.follow_up_date (database.leads_table dbF) = [Some ''2025-08-01''] \<and>
   map lead.follow_up_notes (database.leads_table dbF) = [Some ''call back'']"
  by code_simp

text \<open>
  The same divergence where the update does succeed. The owner saves a lead whose row
  has the gate off and a date and notes in it, without touching the form: the update
  succeeds and the row still holds the date and the notes.
\<close>

theorem update_keeps_passed_follow_up:
  "snd (handleSubmit be0 (Some userB) (Some leadB) (loadLead leadB) [] [] db0) = Completed \<and>
   formData.follow_up (loadLead leadB) = False \<and>
   map lead.follow_up
     (database.leads_table (fst (handleSubmit be0 (Some userB) (Some leadB) (loadLead leadB) [] [] db0)))
     = [Some False] \<and>
   map lead.follow_up_date
     (database.leads_table (fst (handleSubmit be0 (Some userB) (Some leadB) (loadLead leadB) [] [] db0)))
     = [Some ''2025-08-01''] \<and>
   map lead.follow_up_notes
     (database.leads_table (fst (handleSubmit be0 (Some userB) (Some leadB) (loadLead leadB) [] [] db0)))
     = [Some ''call back'']"
  by code_simp

end
